theory Spec2Isabelle
  imports Main
begin

section \<open>The user resource of the JIRA client (user.go)\<close>

text \<open>
  Go strings are byte sequences: they are modelled as \<open>string\<close> (a list of
  characters, one per byte). Go's \<open>int\<close> is only formatted here, never computed
  with, so it is modelled as \<open>int\<close>.
\<close>

subsection \<open>Formatting verbs of fmt.Sprintf used by the module\<close>

text \<open>The decimal digits of a natural number, most significant first.\<close>

fun decimal :: "nat \<Rightarrow> string" where
  "decimal n = (if n < 10 then [''0123456789'' ! n]
                else decimal (n div 10) @ [''0123456789'' ! (n mod 10)])"

declare decimal.simps [simp del]

text \<open>The verb \<open>%d\<close> on an integer: an optional minus sign and the decimal digits.\<close>

definition Sprintf_d :: "int \<Rightarrow> string" where
  "Sprintf_d i = (if i < 0 then CHR ''-'' # decimal (nat (- i)) else decimal (nat i))"

text \<open>The verb \<open>%t\<close> on a boolean.\<close>

definition Sprintf_t :: "bool \<Rightarrow> string" where
  "Sprintf_t b = (if b then ''true'' else ''false'')"

subsection \<open>Search parameters and their modifiers\<close>

record userSearchParam =
  name :: string
  "value" :: string

type_synonym userSearch = "userSearchParam list"

type_synonym userSearchF = "userSearch \<Rightarrow> userSearch"

definition WithMaxResults :: "int \<Rightarrow> userSearchF" where
  "WithMaxResults maxResults =
     (\<lambda>s. s @ [\<lparr>name = ''maxResults'', value = Sprintf_d maxResults\<rparr>])"

definition WithStartAt :: "int \<Rightarrow> userSearchF" where
  "WithStartAt startAt =
     (\<lambda>s. s @ [\<lparr>name = ''startAt'', value = Sprintf_d startAt\<rparr>])"

definition WithActive :: "bool \<Rightarrow> userSearchF" where
  "WithActive active =
     (\<lambda>s. s @ [\<lparr>name = ''includeActive'', value = Sprintf_t active\<rparr>])"

definition WithInactive :: "bool \<Rightarrow> userSearchF" where
  "WithInactive inactive =
     (\<lambda>s. s @ [\<lparr>name = ''includeInactive'', value = Sprintf_t inactive\<rparr>])"

text \<open>
  The first half of \<open>FindWithContext\<close>: the parameter list starts with the
  \<open>username\<close> pair and every tweak is applied to it in turn.
\<close>

definition applyTweaks :: "string \<Rightarrow> userSearchF list \<Rightarrow> userSearch" where
  "applyTweaks property tweaks =
     foldl (\<lambda>search f. f search) [\<lparr>name = ''username'', value = property\<rparr>] tweaks"

text \<open>
  The second loop of \<open>FindWithContext\<close>: every pair adds \<open>name=value&\<close> to the
  query string.
\<close>

definition buildQueryString :: "userSearch \<Rightarrow> string" where
  "buildQueryString search =
     foldl (\<lambda>queryString param. queryString @ name param @ ''='' @ value param @ ''&'')
       [] search"

text \<open>
  A run-time panic of the Go program. The slice expression
  \<open>queryString[:len(queryString)-1]\<close> panics when the query string is empty
  (the upper bound is \<open>-1\<close>); a nil pointer dereference panics too.
\<close>

datatype panic = SliceBoundsOutOfRange | NilPointerDereference

definition dropLastByte :: "string \<Rightarrow> panic + string" where
  "dropLastByte queryString =
     (if queryString = [] then Inl SliceBoundsOutOfRange else Inr (butlast queryString))"

text \<open>The query string that \<open>FindWithContext\<close> puts after the question mark.\<close>

definition findQuery :: "string \<Rightarrow> userSearchF list \<Rightarrow> panic + string" where
  "findQuery property tweaks = dropLastByte (buildQueryString (applyTweaks property tweaks))"

definition findEndpoint :: "string \<Rightarrow> userSearchF list \<Rightarrow> panic + string" where
  "findEndpoint property tweaks =
     (case findQuery property tweaks of
        Inl p \<Rightarrow> Inl p
      | Inr q \<Rightarrow> Inr (''/rest/api/2/user/search?'' @ q))"

text \<open>
  The four modifiers the module provides, as data: the constructor and its
  argument. \<open>modifier\<close> gives the function of the source; \<open>modifierParam\<close> is
  the pair it is meant to add.
\<close>

datatype option_call = OptMaxResults int | OptStartAt int | OptActive bool | OptInactive bool

fun modifier :: "option_call \<Rightarrow> userSearchF" where
  "modifier (OptMaxResults n) = WithMaxResults n"
| "modifier (OptStartAt n) = WithStartAt n"
| "modifier (OptActive b) = WithActive b"
| "modifier (OptInactive b) = WithInactive b"

fun modifierParam :: "option_call \<Rightarrow> userSearchParam" where
  "modifierParam (OptMaxResults n) = \<lparr>name = ''maxResults'', value = Sprintf_d n\<rparr>"
| "modifierParam (OptStartAt n) = \<lparr>name = ''startAt'', value = Sprintf_d n\<rparr>"
| "modifierParam (OptActive b) = \<lparr>name = ''includeActive'', value = Sprintf_t b\<rparr>"
| "modifierParam (OptInactive b) = \<lparr>name = ''includeInactive'', value = Sprintf_t b\<rparr>"

text \<open>One parameter on the wire, and a list of them joined by \<open>&\<close>.\<close>

definition paramText :: "userSearchParam \<Rightarrow> string" where
  "paramText p = name p @ ''='' @ value p"

fun joinAmp :: "string list \<Rightarrow> string" where
  "joinAmp [] = []"
| "joinAmp [x] = x"
| "joinAmp (x # y # ys) = x @ ''&'' @ joinAmp (y # ys)"

subsection \<open>JSON values and the encoding/json library\<close>

text \<open>
  A JSON document as a value. Object members are an association list: the
  order of the keys and duplicate keys are both visible to a decoder. A number
  is kept as its literal text, a string as the Go string it stands for (the
  escapes of the text on the wire are the library's).
\<close>

datatype json =
    JNull
  | JBool bool
  | JNumber string
  | JString string
  | JArray "json list"
  | JObject "(string \<times> json) list"

fun jsonKeys :: "json \<Rightarrow> string list" where
  "jsonKeys (JObject members) = map fst members"
| "jsonKeys _ = []"

text \<open>The two kinds of error \<open>json.Unmarshal\<close> reports.\<close>

datatype json_error = SyntaxError | UnmarshalTypeError

text \<open>
  Go's standard library is not part of the repository. What the module needs
  of it and cannot be read off the struct tags is a parameter:
  \<^item> \<open>parse\<close>: the syntax layer, from the bytes of a document to its value
    (\<open>None\<close> is a syntax error);
  \<^item> \<open>equalFold\<close>: the case-insensitive comparison of an object key with a
    field's JSON name, tried when no field matches exactly;
  \<^item> \<open>decodeStrings\<close>: decoding a JSON array into a \<open>[]string\<close> that may
    already have elements (\<open>False\<close> reports a type error);
  \<^item> the type \<open>AvatarUrls\<close>, which is declared in another file of the
    repository: the type variable \<open>'av\<close>, with its zero value, its encoding
    and its decoding.
\<close>

record 'av encoding_json =
  parse :: "string \<Rightarrow> json option"
  equalFold :: "string \<Rightarrow> string \<Rightarrow> bool"
  decodeStrings :: "json list \<Rightarrow> string list option \<Rightarrow> bool \<times> string list option"
  zeroAvatarUrls :: 'av
  encodeAvatarUrls :: "'av \<Rightarrow> json"
  decodeAvatarUrls :: "json \<Rightarrow> 'av \<Rightarrow> bool \<times> 'av"

subsection \<open>User and UserGroup\<close>

text \<open>
  The struct \<open>User\<close>. A \<open>[]string\<close> is \<open>None\<close> when it is the nil slice.
\<close>

record 'av User =
  Self :: string
  AccountID :: string
  AccountType :: string
  Name :: string
  Key :: string
  Password :: string
  EmailAddress :: string
  AvatarUrls :: 'av
  DisplayName :: string
  Active :: bool
  TimeZone :: string
  Locale :: string
  ApplicationKeys :: "string list option"

datatype UserGroup = UserGroup (groupSelf: string) (groupName: string)

text \<open>\<open>new(User)\<close>: every field has its zero value.\<close>

definition new_User :: "'av encoding_json \<Rightarrow> 'av User" where
  "new_User lib =
     \<lparr>Self = [], AccountID = [], AccountType = [], Name = [], Key = [], Password = [],
      EmailAddress = [], AvatarUrls = zeroAvatarUrls lib, DisplayName = [], Active = False,
      TimeZone = [], Locale = [], ApplicationKeys = None\<rparr>"

subsection \<open>The JSON form of a User, driven by the struct tags\<close>

text \<open>The value of a field of \<open>User\<close>, by its Go type.\<close>

datatype 'av goValue =
    GoString string
  | GoBool bool
  | GoStruct 'av
  | GoStrings "string list option"

text \<open>
  A field of the struct as the encoder sees it: its Go name, the value of its
  \<open>json\<close> tag, and access to it.
\<close>

record 'av field =
  goName :: string
  jsonTag :: string
  getField :: "'av User \<Rightarrow> 'av goValue"
  setField :: "'av goValue \<Rightarrow> 'av User \<Rightarrow> 'av User"

definition stringField ::
  "string \<Rightarrow> string \<Rightarrow> ('av User \<Rightarrow> string) \<Rightarrow> (string \<Rightarrow> 'av User \<Rightarrow> 'av User) \<Rightarrow> 'av field" where
  "stringField n t g s =
     \<lparr>goName = n, jsonTag = t, getField = (\<lambda>u. GoString (g u)),
      setField = (\<lambda>v u. case v of GoString x \<Rightarrow> s x u | _ \<Rightarrow> u)\<rparr>"

definition userFields :: "'av field list" where
  "userFields =
     [stringField ''Self'' ''self,omitempty'' Self (\<lambda>x u. u\<lparr>Self := x\<rparr>),
      stringField ''AccountID'' ''accountId,omitempty'' AccountID (\<lambda>x u. u\<lparr>AccountID := x\<rparr>),
      stringField ''AccountType'' ''accountType,omitempty'' AccountType
        (\<lambda>x u. u\<lparr>AccountType := x\<rparr>),
      stringField ''Name'' ''name,omitempty'' Name (\<lambda>x u. u\<lparr>Name := x\<rparr>),
      stringField ''Key'' ''key,omitempty'' Key (\<lambda>x u. u\<lparr>Key := x\<rparr>),
      stringField ''Password'' ''-'' Password (\<lambda>x u. u\<lparr>Password := x\<rparr>),
      stringField ''EmailAddress'' ''emailAddress,omitempty'' EmailAddress
        (\<lambda>x u. u\<lparr>EmailAddress := x\<rparr>),
      \<lparr>goName = ''AvatarUrls'', jsonTag = ''avatarUrls,omitempty'',
       getField = (\<lambda>u. GoStruct (AvatarUrls u)),
       setField = (\<lambda>v u. case v of GoStruct x \<Rightarrow> u\<lparr>AvatarUrls := x\<rparr> | _ \<Rightarrow> u)\<rparr>,
      stringField ''DisplayName'' ''displayName,omitempty'' DisplayName
        (\<lambda>x u. u\<lparr>DisplayName := x\<rparr>),
      \<lparr>goName = ''Active'', jsonTag = ''active,omitempty'',
       getField = (\<lambda>u. GoBool (Active u)),
       setField = (\<lambda>v u. case v of GoBool x \<Rightarrow> u\<lparr>Active := x\<rparr> | _ \<Rightarrow> u)\<rparr>,
      stringField ''TimeZone'' ''timeZone,omitempty'' TimeZone (\<lambda>x u. u\<lparr>TimeZone := x\<rparr>),
      stringField ''Locale'' ''locale,omitempty'' Locale (\<lambda>x u. u\<lparr>Locale := x\<rparr>),
      \<lparr>goName = ''ApplicationKeys'', jsonTag = ''applicationKeys,omitempty'',
       getField = (\<lambda>u. GoStrings (ApplicationKeys u)),
       setField = (\<lambda>v u. case v of GoStrings x \<Rightarrow> u\<lparr>ApplicationKeys := x\<rparr> | _ \<Rightarrow> u)\<rparr>]"

text \<open>
  How encoding/json reads a tag: a field whose tag is \<open>-\<close> is left out of
  both directions; otherwise the text before the first comma is the key (the Go
  name when it is empty) and the rest is a comma-separated list of options.
  The keys in the tags of \<open>User\<close> are made of letters only, so the library's
  check of the characters of a key is left out.
\<close>

fun splitOn :: "char \<Rightarrow> string \<Rightarrow> string list" where
  "splitOn c [] = [[]]"
| "splitOn c (x # xs) =
     (if x = c then [] # splitOn c xs
      else (case splitOn c xs of [] \<Rightarrow> [[x]] | y # ys \<Rightarrow> (x # y) # ys))"

definition skipped :: "'av field \<Rightarrow> bool" where
  "skipped f = (jsonTag f = ''-'')"

definition tagName :: "string \<Rightarrow> string" where
  "tagName tag = takeWhile (\<lambda>c. c \<noteq> CHR '','') tag"

definition tagOptions :: "string \<Rightarrow> string list" where
  "tagOptions tag = splitOn (CHR '','') (drop (Suc (length (tagName tag))) tag)"

definition omitEmpty :: "'av field \<Rightarrow> bool" where
  "omitEmpty f = (''omitempty'' \<in> set (tagOptions (jsonTag f)))"

definition jsonKey :: "'av field \<Rightarrow> string" where
  "jsonKey f = (if tagName (jsonTag f) = [] then goName f else tagName (jsonTag f))"

text \<open>
  The values \<open>omitempty\<close> leaves out: the empty string, false, a slice of
  length zero. A struct is never empty.
\<close>

fun isEmptyValue :: "'av goValue \<Rightarrow> bool" where
  "isEmptyValue (GoString s) = (s = [])"
| "isEmptyValue (GoBool b) = (\<not> b)"
| "isEmptyValue (GoStruct a) = False"
| "isEmptyValue (GoStrings None) = True"
| "isEmptyValue (GoStrings (Some xs)) = (xs = [])"

fun encodeValue :: "'av encoding_json \<Rightarrow> 'av goValue \<Rightarrow> json" where
  "encodeValue lib (GoString s) = JString s"
| "encodeValue lib (GoBool b) = JBool b"
| "encodeValue lib (GoStruct a) = encodeAvatarUrls lib a"
| "encodeValue lib (GoStrings None) = JNull"
| "encodeValue lib (GoStrings (Some xs)) = JArray (map JString xs)"

definition encodeField :: "'av encoding_json \<Rightarrow> 'av User \<Rightarrow> 'av field \<Rightarrow> (string \<times> json) list" where
  "encodeField lib u f =
     (if skipped f then []
      else if omitEmpty f \<and> isEmptyValue (getField f u) then []
      else [(jsonKey f, encodeValue lib (getField f u))])"

text \<open>\<open>json.Marshal\<close> of a User: one member per field that is put out, in field order.\<close>

definition marshalUser :: "'av encoding_json \<Rightarrow> 'av User \<Rightarrow> json" where
  "marshalUser lib u = JObject (concat (map (encodeField lib u) userFields))"

text \<open>
  Decoding one JSON value into a field. \<open>null\<close> leaves a string, a boolean and
  a struct as they are and makes a slice nil. A value of the wrong JSON type is
  a type error and leaves the field as it is.
\<close>

fun decodeValue :: "'av encoding_json \<Rightarrow> 'av goValue \<Rightarrow> json \<Rightarrow> bool \<times> 'av goValue" where
  "decodeValue lib (GoStrings xs) JNull = (True, GoStrings None)"
| "decodeValue lib v JNull = (True, v)"
| "decodeValue lib (GoString old) (JString s) = (True, GoString s)"
| "decodeValue lib (GoBool old) (JBool b) = (True, GoBool b)"
| "decodeValue lib (GoStrings xs) (JArray js) =
     (case decodeStrings lib js xs of (ok, ys) \<Rightarrow> (ok, GoStrings ys))"
| "decodeValue lib (GoStruct a) j =
     (case decodeAvatarUrls lib j a of (ok, b) \<Rightarrow> (ok, GoStruct b))"
| "decodeValue lib v j = (False, v)"

text \<open>
  The field an object key names: an exact match of the key first, then a
  case-insensitive one; skipped fields never match.
\<close>

definition findField :: "'av encoding_json \<Rightarrow> string \<Rightarrow> 'av field option" where
  "findField lib k =
     (case filter (\<lambda>f. \<not> skipped f \<and> jsonKey f = k) userFields of
        f # _ \<Rightarrow> Some f
      | [] \<Rightarrow>
          (case filter (\<lambda>f. \<not> skipped f \<and> equalFold lib (jsonKey f) k) userFields of
             f # _ \<Rightarrow> Some f
           | [] \<Rightarrow> None))"

text \<open>
  One member of the object: a key that names no field is ignored; a type error
  is remembered (the first one is reported) and decoding goes on.
\<close>

definition decodeMember ::
  "'av encoding_json \<Rightarrow> json_error option \<times> 'av User \<Rightarrow> string \<times> json \<Rightarrow> json_error option \<times> 'av User" where
  "decodeMember lib acc member =
     (case findField lib (fst member) of
        None \<Rightarrow> acc
      | Some f \<Rightarrow>
          (case decodeValue lib (getField f (snd acc)) (snd member) of
             (ok, v) \<Rightarrow>
               (if fst acc = None \<and> \<not> ok then Some UnmarshalTypeError else fst acc,
                setField f v (snd acc))))"

text \<open>
  Decoding a value into a User: \<open>null\<close> changes nothing, an object is decoded
  member by member, anything else is a type error.
\<close>

fun unmarshalValue :: "'av encoding_json \<Rightarrow> json \<Rightarrow> 'av User \<Rightarrow> json_error option \<times> 'av User" where
  "unmarshalValue lib JNull u = (None, u)"
| "unmarshalValue lib (JObject members) u = foldl (decodeMember lib) (None, u) members"
| "unmarshalValue lib j u = (Some UnmarshalTypeError, u)"

text \<open>
  \<open>json.Unmarshal(data, responseUser)\<close>: the input is checked for syntax first
  (an empty input is ``unexpected end of JSON input''), and nothing is decoded
  from an input that fails the check.
\<close>

definition json_Unmarshal :: "'av encoding_json \<Rightarrow> string \<Rightarrow> 'av User \<Rightarrow> json_error option \<times> 'av User" where
  "json_Unmarshal lib data u =
     (if data = [] then (Some SyntaxError, u)
      else (case parse lib data of
              None \<Rightarrow> (Some SyntaxError, u)
            | Some j \<Rightarrow> unmarshalValue lib j u))"

subsection \<open>The client collaborator\<close>

text \<open>
  Modelled from the spec: the type \<open>Response\<close> is declared in another file of
  the repository; the spec calls it ``a raw response handle'' and names its
  status and its body. The module uses the body only: it reads it to the end
  and closes it. The body is what \<open>ioutil.ReadAll\<close> gives on it (the message
  of a read error, or the data) and the number of times \<open>Close\<close> has been
  called on it.
\<close>

datatype ReadCloser = ReadCloser (readAll: "string + string") (closeCalls: nat)

datatype Response = Response (Status: string) (Body: ReadCloser)

text \<open>\<open>resp.Body.Close()\<close>: one more call of \<open>Close\<close> on the body.\<close>

definition Close :: "Response \<Rightarrow> Response" where
  "Close resp = Response (Status resp) (ReadCloser (readAll (Body resp)) (Suc (closeCalls (Body resp))))"

text \<open>
  Modelled from the spec: \<open>NewJiraError\<close> is defined in another file of the
  repository. The spec has it wrap an error ``with response context (status,
  body snippet)'': the wrapped error keeps the response and the error it was
  made from. \<open>Errorf\<close> is an error made from a message, as \<open>fmt.Errorf\<close> makes
  one; the errors of the collaborator are values of this type too.
\<close>

datatype error = Errorf string | NewJiraError "Response option" error

text \<open>
  Modelled from the spec: a request is built from ``method, path, optional
  body'', and bodies are JSON. A request is the method and the URL as the
  module gave them to the builder, and the JSON value of the body.
\<close>

datatype Request = Request (Method: string) (URL: string) (Payload: "json option")

text \<open>
  Modelled from the spec: the client (\<open>Client\<close>, with \<open>NewRequestWithContext\<close>
  and \<open>Do\<close>) is defined in another file of the repository. The spec has it
  ``build a request (method, path, optional body) bound to a cancellation
  context, and execute a request producing a typed-decoded result plus a raw
  response handle plus an error''.
  \<^item> \<open>rejects\<close>: the error, if any, with which building a request fails;
  \<^item> \<open>exec\<close>: executing a request with no value to decode into
    (\<open>Do(req, nil)\<close>): the response and the error;
  \<^item> \<open>execInto\<close>: executing a request with a value \<open>v\<close> to decode into: what
    \<open>v\<close> holds afterwards, the response and the error.
  The context is handed to \<open>NewRequestWithContext\<close> as it is and plays no part
  in the module: it is left out.
\<close>

record 'v Client =
  rejects :: "string \<Rightarrow> string \<Rightarrow> json option \<Rightarrow> error option"
  exec :: "Request \<Rightarrow> Response option \<times> error option"
  execInto :: "Request \<Rightarrow> 'v \<Rightarrow> 'v \<times> Response option \<times> error option"

text \<open>
  Modelled from the spec: \<open>NewRequestWithContext\<close> builds the request or fails
  with an error; the body, when there is one, is the JSON form of the User
  (``body is the User JSON representation'').
\<close>

definition NewRequestWithContext ::
  "'v Client \<Rightarrow> 'av encoding_json \<Rightarrow> string \<Rightarrow> string \<Rightarrow> 'av User option \<Rightarrow> error + Request" where
  "NewRequestWithContext c lib method urlStr body =
     (let payload = map_option (marshalUser lib) body
      in case rejects c method urlStr payload of
           Some err \<Rightarrow> Inl err
         | None \<Rightarrow> Inr (Request method urlStr payload))"

text \<open>
  Modelled from the spec: \<open>Do\<close> executes a request, with ``exactly one HTTP
  exchange per call''. The state that is passed along is the list of the
  requests executed so far, one entry per call of \<open>Do\<close>. \<open>Do\<close> is the call
  with nil for the value to decode into, \<open>DoInto\<close> the call with a value.
\<close>

definition Do :: "'v Client \<Rightarrow> Request \<Rightarrow> Request list \<Rightarrow> (Response option \<times> error option) \<times> Request list" where
  "Do c req sent = (exec c req, sent @ [req])"

definition DoInto ::
  "'v Client \<Rightarrow> Request \<Rightarrow> 'v \<Rightarrow> Request list \<Rightarrow> ('v \<times> Response option \<times> error option) \<times> Request list" where
  "DoInto c req v sent = (execInto c req v, sent @ [req])"

subsection \<open>The operations of UserService\<close>

text \<open>
  Every operation takes the list of the requests executed so far and gives it
  back, longer by the requests it had executed. A nil pointer, a nil slice and
  a nil error are \<open>None\<close>.
\<close>

definition GetWithContext ::
  "'av User Client \<Rightarrow> 'av encoding_json \<Rightarrow> string \<Rightarrow> Request list \<Rightarrow>
     ('av User option \<times> Response option \<times> error option) \<times> Request list" where
  "GetWithContext c lib username sent =
     (let apiEndpoint = ''/rest/api/2/user?username='' @ username
      in case NewRequestWithContext c lib ''GET'' apiEndpoint None of
           Inl err \<Rightarrow> ((None, None, Some err), sent)
         | Inr req \<Rightarrow>
             (case DoInto c req (new_User lib) sent of
                ((user, resp, Some err), sent') \<Rightarrow>
                  ((None, resp, Some (NewJiraError resp err)), sent')
              | ((user, resp, None), sent') \<Rightarrow> ((Some user, resp, None), sent')))"

definition GetByAccountIDWithContext ::
  "'av User Client \<Rightarrow> 'av encoding_json \<Rightarrow> string \<Rightarrow> Request list \<Rightarrow>
     ('av User option \<times> Response option \<times> error option) \<times> Request list" where
  "GetByAccountIDWithContext c lib accountID sent =
     (let apiEndpoint = ''/rest/api/2/user?accountId='' @ accountID
      in case NewRequestWithContext c lib ''GET'' apiEndpoint None of
           Inl err \<Rightarrow> ((None, None, Some err), sent)
         | Inr req \<Rightarrow>
             (case DoInto c req (new_User lib) sent of
                ((user, resp, Some err), sent') \<Rightarrow>
                  ((None, resp, Some (NewJiraError resp err)), sent')
              | ((user, resp, None), sent') \<Rightarrow> ((Some user, resp, None), sent')))"

text \<open>
  \<open>CreateWithContext\<close>. The pointer \<open>user\<close> is taken to be non-nil. The
  deferred \<open>resp.Body.Close()\<close> is registered after the error check that
  follows \<open>Do\<close>; evaluating \<open>resp.Body\<close> there panics on a nil response. The
  deferred call runs when the function returns, after the returned values have
  been computed, on the response the caller receives.
\<close>

definition CreateWithContext ::
  "'v Client \<Rightarrow> 'av encoding_json \<Rightarrow> 'av User \<Rightarrow> Request list \<Rightarrow>
     (panic + ('av User option \<times> Response option \<times> error option)) \<times> Request list" where
  "CreateWithContext c lib user sent =
     (let apiEndpoint = ''/rest/api/2/user''
      in case NewRequestWithContext c lib ''POST'' apiEndpoint (Some user) of
           Inl err \<Rightarrow> (Inr (None, None, Some err), sent)
         | Inr req \<Rightarrow>
             (case Do c req sent of
                ((resp, Some err), sent') \<Rightarrow> (Inr (None, resp, Some err), sent')
              | ((None, None), sent') \<Rightarrow> (Inl NilPointerDereference, sent')
              | ((Some r, None), sent') \<Rightarrow>
                  (case readAll (Body r) of
                     Inl readErr \<Rightarrow>
                       (Inr (None, Some (Close r),
                             Some (NewJiraError (Some r) (Errorf ''could not read the returned data''))),
                        sent')
                   | Inr data \<Rightarrow>
                       (case json_Unmarshal lib data (new_User lib) of
                          (Some decodeErr, responseUser) \<Rightarrow>
                            (Inr (None, Some (Close r),
                                  Some (NewJiraError (Some r)
                                          (Errorf ''could not unmarshall the data into struct''))),
                             sent')
                        | (None, responseUser) \<Rightarrow>
                            (Inr (Some responseUser, Some (Close r), None), sent')))))"

definition DeleteWithContext ::
  "'v Client \<Rightarrow> 'av encoding_json \<Rightarrow> string \<Rightarrow> Request list \<Rightarrow>
     (Response option \<times> error option) \<times> Request list" where
  "DeleteWithContext c lib username sent =
     (let apiEndpoint = ''/rest/api/2/user?username='' @ username
      in case NewRequestWithContext c lib ''DELETE'' apiEndpoint None of
           Inl err \<Rightarrow> ((None, Some err), sent)
         | Inr req \<Rightarrow>
             (case Do c req sent of
                ((resp, Some err), sent') \<Rightarrow> ((resp, Some (NewJiraError resp err)), sent')
              | ((resp, None), sent') \<Rightarrow> ((resp, None), sent')))"

definition GetGroupsWithContext ::
  "UserGroup list option Client \<Rightarrow> 'av encoding_json \<Rightarrow> string \<Rightarrow> Request list \<Rightarrow>
     (UserGroup list option option \<times> Response option \<times> error option) \<times> Request list" where
  "GetGroupsWithContext c lib username sent =
     (let apiEndpoint = ''/rest/api/2/user/groups?username='' @ username
      in case NewRequestWithContext c lib ''GET'' apiEndpoint None of
           Inl err \<Rightarrow> ((None, None, Some err), sent)
         | Inr req \<Rightarrow>
             (case DoInto c req None sent of
                ((userGroups, resp, Some err), sent') \<Rightarrow>
                  ((None, resp, Some (NewJiraError resp err)), sent')
              | ((userGroups, resp, None), sent') \<Rightarrow> ((Some userGroups, resp, None), sent')))"

definition GetSelfWithContext ::
  "'av User Client \<Rightarrow> 'av encoding_json \<Rightarrow> Request list \<Rightarrow>
     ('av User option \<times> Response option \<times> error option) \<times> Request list" where
  "GetSelfWithContext c lib sent =
     (let apiEndpoint = ''rest/api/2/myself''
      in case NewRequestWithContext c lib ''GET'' apiEndpoint None of
           Inl err \<Rightarrow> ((None, None, Some err), sent)
         | Inr req \<Rightarrow>
             (case DoInto c req (new_User lib) sent of
                ((user, resp, Some err), sent') \<Rightarrow>
                  ((None, resp, Some (NewJiraError resp err)), sent')
              | ((user, resp, None), sent') \<Rightarrow> ((Some user, resp, None), sent')))"

text \<open>
  \<open>FindWithContext\<close>. The slice \<open>users\<close> starts as the empty, non-nil slice
  \<open>[]User{}\<close>; the function gives back nil with an error.
\<close>

definition FindWithContext ::
  "'av User list option Client \<Rightarrow> 'av encoding_json \<Rightarrow> string \<Rightarrow> userSearchF list \<Rightarrow> Request list \<Rightarrow>
     (panic + ('av User list option \<times> Response option \<times> error option)) \<times> Request list" where
  "FindWithContext c lib property tweaks sent =
     (case findEndpoint property tweaks of
        Inl p \<Rightarrow> (Inl p, sent)
      | Inr apiEndpoint \<Rightarrow>
          (case NewRequestWithContext c lib ''GET'' apiEndpoint None of
             Inl err \<Rightarrow> (Inr (None, None, Some err), sent)
           | Inr req \<Rightarrow>
               (case DoInto c req (Some []) sent of
                  ((users, resp, Some err), sent') \<Rightarrow>
                    (Inr (None, resp, Some (NewJiraError resp err)), sent')
                | ((users, resp, None), sent') \<Rightarrow> (Inr (users, resp, None), sent'))))"

subsection \<open>Reading a query string, and sample collaborators\<close>

text \<open>
  How the query of a URL is read (RFC 3986): it starts after the first \<open>?\<close>
  and ends before a \<open>#\<close>; its parameters are separated by \<open>&\<close>, and the name
  of a parameter ends at its first \<open>=\<close>. Names and values are given as they
  stand in the URL, percent-encoded. The unreserved characters are the ones
  that stand for themselves in every part of a URL.
\<close>

definition queryOf :: "string \<Rightarrow> string" where
  "queryOf url = takeWhile (\<lambda>c. c \<noteq> CHR ''#'') (drop 1 (dropWhile (\<lambda>c. c \<noteq> CHR ''?'') url))"

definition unreserved :: "char \<Rightarrow> bool" where
  "unreserved c =
     (c \<in> set ''ABCDEFGHIJKLMNOPQRSTUVWXYZabcdefghijklmnopqrstuvwxyz0123456789-._~'')"

definition queryParams :: "string \<Rightarrow> (string \<times> string) list" where
  "queryParams q =
     map (\<lambda>kv. (takeWhile (\<lambda>c. c \<noteq> CHR ''='') kv, drop 1 (dropWhile (\<lambda>c. c \<noteq> CHR ''='') kv)))
       (splitOn (CHR ''&'') q)"

text \<open>
  Modelled from the spec: resolving an endpoint against the base path is done
  by the request builder, which is defined in another file of the repository.
  The spec has the endpoints ``relative to a configured API base path'' and
  writes them with a leading slash, as in \<open>GET /rest/api/2/myself\<close>. The URL
  of the request that is issued is the base path (taken without a slash at its
  end), a slash, and the endpoint without the slashes at its start.
\<close>

definition resolveEndpoint :: "string \<Rightarrow> string \<Rightarrow> string" where
  "resolveEndpoint basePath urlStr = basePath @ ''/'' @ dropWhile (\<lambda>c. c = CHR ''/'') urlStr"


text \<open>
  A client that answers every call the same way: \<open>buildErr\<close> is the outcome of
  building a request, \<open>resp\<close> and \<open>err\<close> the outcome of executing one (a value
  to decode into is left as it is).
\<close>

definition fixedClient :: "error option \<Rightarrow> Response option \<Rightarrow> error option \<Rightarrow> 'v Client" where
  "fixedClient buildErr resp err =
     \<lparr>rejects = (\<lambda>method urlStr payload. buildErr),
      exec = (\<lambda>req. (resp, err)),
      execInto = (\<lambda>req v. (v, resp, err))\<rparr>"

text \<open>
  A small instance of the library, with \<open>unit\<close> for \<open>AvatarUrls\<close>: it reads
  three documents and compares keys exactly.
\<close>

definition tinyJSON :: "unit encoding_json" where
  "tinyJSON =
     \<lparr>parse = (\<lambda>data.
         if data = ''{}'' then Some (JObject [])
         else if data = ''null'' then Some JNull
         else if data = ''{\"name\":\"jdoe\",\"password\":\"hunter2\",\"active\":true}''
           then Some (JObject [(''name'', JString ''jdoe''), (''password'', JString ''hunter2''),
                               (''active'', JBool True)])
         else None),
      equalFold = (\<lambda>a b. a = b),
      decodeStrings = (\<lambda>js old. (True, Some [])),
      zeroAvatarUrls = (),
      encodeAvatarUrls = (\<lambda>a. JObject []),
      decodeAvatarUrls = (\<lambda>j a. (True, a))\<rparr>"

text \<open>Sample responses: a user found, a user created, and a rejection.\<close>

definition ok200 :: "string \<Rightarrow> Response" where
  "ok200 data = Response ''200 OK'' (ReadCloser (Inr data) 0)"

definition created201 :: "string \<Rightarrow> Response" where
  "created201 data = Response ''201 Created'' (ReadCloser (Inr data) 0)"

definition unauthorized401 :: Response where
  "unauthorized401 = Response ''401 Unauthorized'' (ReadCloser (Inr ''{\"errorMessages\":[]}'') 0)"

definition jdoe :: "unit User" where
  "jdoe = (new_User tinyJSON)\<lparr>Name := ''jdoe'', Password := ''secret'', Active := True\<rparr>"

subsection \<open>Facts about the search parameters\<close>

lemma modifier_appends: "modifier m s = s @ [modifierParam m]"
  by (cases m) (simp_all add: WithMaxResults_def WithStartAt_def WithActive_def WithInactive_def)

lemma foldl_modifier: "foldl (\<lambda>search f. f search) s (map modifier ms) = s @ map modifierParam ms"
  by (induction ms arbitrary: s) (simp_all add: modifier_appends)

lemma applyTweaks_modifiers:
  "applyTweaks property (map modifier ms) =
     \<lparr>name = ''username'', value = property\<rparr> # map modifierParam ms"
  by (simp add: applyTweaks_def foldl_modifier)

lemma foldl_query_acc:
  "foldl (\<lambda>queryString param. queryString @ name param @ ''='' @ value param @ ''&'') acc search
     = acc @ concat (map (\<lambda>p. paramText p @ ''&'') search)"
  by (induction search arbitrary: acc) (simp_all add: paramText_def)

lemma buildQueryString_concat:
  "buildQueryString search = concat (map (\<lambda>p. paramText p @ ''&'') search)"
  using foldl_query_acc [of "[]" search] by (simp add: buildQueryString_def)

lemma concat_amp_join:
  "ps \<noteq> [] \<Longrightarrow> concat (map (\<lambda>p. paramText p @ ''&'') ps) = joinAmp (map paramText ps) @ ''&''"
  by (induction ps rule: induct_list012) simp_all

lemma findQuery_modifiers:
  "findQuery property (map modifier ms) =
     Inr (joinAmp (map paramText (\<lparr>name = ''username'', value = property\<rparr> # map modifierParam ms)))"
proof -
  let ?ps = "\<lparr>name = ''username'', value = property\<rparr> # map modifierParam ms"
  have "buildQueryString ?ps = joinAmp (map paramText ?ps) @ ''&''"
    unfolding buildQueryString_concat by (rule concat_amp_join) simp
  then show ?thesis
    by (simp add: findQuery_def applyTweaks_modifiers dropLastByte_def)
qed

subsection \<open>Facts about the JSON form of a User\<close>

lemma encodeField_string:
  "encodeField lib u (stringField n t g s) =
     (if t = ''-'' then []
      else if ''omitempty'' \<in> set (tagOptions t) \<and> g u = [] then []
      else [(if tagName t = [] then n else tagName t, JString (g u))])"
  by (simp add: encodeField_def stringField_def skipped_def omitEmpty_def jsonKey_def)

lemma marshalUser_members:
  "marshalUser lib u = JObject
     ((if Self u = [] then [] else [(''self'', JString (Self u))]) @
      (if AccountID u = [] then [] else [(''accountId'', JString (AccountID u))]) @
      (if AccountType u = [] then [] else [(''accountType'', JString (AccountType u))]) @
      (if Name u = [] then [] else [(''name'', JString (Name u))]) @
      (if Key u = [] then [] else [(''key'', JString (Key u))]) @
      (if EmailAddress u = [] then [] else [(''emailAddress'', JString (EmailAddress u))]) @
      [(''avatarUrls'', encodeAvatarUrls lib (AvatarUrls u))] @
      (if DisplayName u = [] then [] else [(''displayName'', JString (DisplayName u))]) @
      (if Active u then [(''active'', JBool True)] else []) @
      (if TimeZone u = [] then [] else [(''timeZone'', JString (TimeZone u))]) @
      (if Locale u = [] then [] else [(''locale'', JString (Locale u))]) @
      (case ApplicationKeys u of None \<Rightarrow> [] | Some xs \<Rightarrow>
         if xs = [] then [] else [(''applicationKeys'', JArray (map JString xs))]))"
  unfolding marshalUser_def userFields_def
  apply (simp add: encodeField_string tagName_def tagOptions_def)
  apply (simp add: encodeField_def skipped_def omitEmpty_def jsonKey_def tagName_def tagOptions_def split: option.splits)
  done

lemma marshalUser_Password: "marshalUser lib (u\<lparr>Password := p\<rparr>) = marshalUser lib u"
  by (simp add: marshalUser_members)

lemma marshalUser_keys:
  "set (jsonKeys (marshalUser lib u)) \<subseteq>
     {''self'', ''accountId'', ''accountType'', ''name'', ''key'', ''emailAddress'', ''avatarUrls'',
      ''displayName'', ''active'', ''timeZone'', ''locale'', ''applicationKeys''}"
  by (auto simp add: marshalUser_members split: option.splits if_splits)

lemma marshalUser_no_password: "''password'' \<notin> set (jsonKeys (marshalUser lib u))"
  using marshalUser_keys [of lib u] by auto

lemma setField_Password:
  "f \<in> set userFields \<Longrightarrow> \<not> skipped f \<Longrightarrow> Password (setField f v u) = Password u"
  by (auto simp add: userFields_def stringField_def skipped_def split: goValue.splits)

lemma findField_Some: "findField lib k = Some f \<Longrightarrow> f \<in> set userFields \<and> \<not> skipped f"
proof -
  assume a: "findField lib k = Some f"
  have h: "filter P xs = y # ys \<Longrightarrow> y \<in> set xs \<and> P y" for P and xs :: "'a field list" and y ys
  proof -
    assume "filter P xs = y # ys"
    then have "y \<in> set (filter P xs)" by simp
    then show ?thesis by simp
  qed
  from a show ?thesis
    unfolding findField_def
    by (auto split: list.splits dest!: h)
qed

lemma decodeMember_Password: "Password (snd (decodeMember lib acc m)) = Password (snd acc)"
  by (auto simp add: decodeMember_def split: option.splits prod.splits
      dest!: findField_Some intro: setField_Password)

lemma foldl_decodeMember_Password:
  "Password (snd (foldl (decodeMember lib) acc ms)) = Password (snd acc)"
  by (induction ms arbitrary: acc) (simp_all add: decodeMember_Password)

lemma unmarshalValue_Password: "Password (snd (unmarshalValue lib j u)) = Password u"
  by (cases j) (simp_all add: foldl_decodeMember_Password)

lemma json_Unmarshal_Password: "Password (snd (json_Unmarshal lib data u)) = Password u"
  by (simp add: json_Unmarshal_def unmarshalValue_Password split: option.splits)

lemma json_Unmarshal_empty: "fst (json_Unmarshal lib [] u) = Some SyntaxError"
  by (simp add: json_Unmarshal_def)

subsection \<open>The exits of create\<close>

lemma NewRequest_Inr:
  "NewRequestWithContext c lib method urlStr body = Inr req \<Longrightarrow>
     req = Request method urlStr (map_option (marshalUser lib) body)"
  by (auto simp add: NewRequestWithContext_def Let_def split: option.splits)

lemma NewRequest_Password:
  "NewRequestWithContext c lib method urlStr (Some (u\<lparr>Password := p\<rparr>)) =
     NewRequestWithContext c lib method urlStr (Some u)"
  by (simp add: NewRequestWithContext_def marshalUser_Password)

lemma create_build_fails:
  "NewRequestWithContext c lib ''POST'' ''/rest/api/2/user'' (Some user) = Inl err \<Longrightarrow>
     CreateWithContext c lib user sent = (Inr (None, None, Some err), sent)"
  by (simp add: CreateWithContext_def)

lemma create_do_fails:
  "NewRequestWithContext c lib ''POST'' ''/rest/api/2/user'' (Some user) = Inr req \<Longrightarrow>
   exec c req = (resp, Some err) \<Longrightarrow>
     CreateWithContext c lib user sent = (Inr (None, resp, Some err), sent @ [req])"
  by (auto simp add: CreateWithContext_def Do_def split: option.splits sum.splits prod.splits)

lemma create_nil_response:
  "NewRequestWithContext c lib ''POST'' ''/rest/api/2/user'' (Some user) = Inr req \<Longrightarrow>
   exec c req = (None, None) \<Longrightarrow>
     CreateWithContext c lib user sent = (Inl NilPointerDereference, sent @ [req])"
  by (auto simp add: CreateWithContext_def Do_def split: option.splits sum.splits prod.splits)

lemma create_read_fails:
  "NewRequestWithContext c lib ''POST'' ''/rest/api/2/user'' (Some user) = Inr req \<Longrightarrow>
   exec c req = (Some r, None) \<Longrightarrow> readAll (Body r) = Inl readErr \<Longrightarrow>
     CreateWithContext c lib user sent =
       (Inr (None, Some (Close r),
             Some (NewJiraError (Some r) (Errorf ''could not read the returned data''))),
        sent @ [req])"
  by (auto simp add: CreateWithContext_def Do_def split: option.splits sum.splits prod.splits)

lemma create_decode_fails:
  "NewRequestWithContext c lib ''POST'' ''/rest/api/2/user'' (Some user) = Inr req \<Longrightarrow>
   exec c req = (Some r, None) \<Longrightarrow> readAll (Body r) = Inr data \<Longrightarrow>
   fst (json_Unmarshal lib data (new_User lib)) = Some decodeErr \<Longrightarrow>
     CreateWithContext c lib user sent =
       (Inr (None, Some (Close r),
             Some (NewJiraError (Some r) (Errorf ''could not unmarshall the data into struct''))),
        sent @ [req])"
  by (auto simp add: CreateWithContext_def Do_def split: option.splits sum.splits prod.splits)

lemma create_succeeds:
  "NewRequestWithContext c lib ''POST'' ''/rest/api/2/user'' (Some user) = Inr req \<Longrightarrow>
   exec c req = (Some r, None) \<Longrightarrow> readAll (Body r) = Inr data \<Longrightarrow>
   fst (json_Unmarshal lib data (new_User lib)) = None \<Longrightarrow>
     CreateWithContext c lib user sent =
       (Inr (Some (snd (json_Unmarshal lib data (new_User lib))), Some (Close r), None),
        sent @ [req])"
  by (auto simp add: CreateWithContext_def Do_def split: option.splits sum.splits prod.splits)

text \<open>Every way out of create.\<close>

lemma create_cases:
  obtains
    (build) err where "NewRequestWithContext c lib ''POST'' ''/rest/api/2/user'' (Some user) = Inl err"
      "CreateWithContext c lib user sent = (Inr (None, None, Some err), sent)"
  | (exec) req resp err where
      "NewRequestWithContext c lib ''POST'' ''/rest/api/2/user'' (Some user) = Inr req"
      "exec c req = (resp, Some err)"
      "CreateWithContext c lib user sent = (Inr (None, resp, Some err), sent @ [req])"
  | (nil) req where
      "NewRequestWithContext c lib ''POST'' ''/rest/api/2/user'' (Some user) = Inr req"
      "exec c req = (None, None)"
      "CreateWithContext c lib user sent = (Inl NilPointerDereference, sent @ [req])"
  | (read) req r readErr where
      "NewRequestWithContext c lib ''POST'' ''/rest/api/2/user'' (Some user) = Inr req"
      "exec c req = (Some r, None)" "readAll (Body r) = Inl readErr"
      "CreateWithContext c lib user sent =
         (Inr (None, Some (Close r),
               Some (NewJiraError (Some r) (Errorf ''could not read the returned data''))),
          sent @ [req])"
  | (decode) req r data decodeErr where
      "NewRequestWithContext c lib ''POST'' ''/rest/api/2/user'' (Some user) = Inr req"
      "exec c req = (Some r, None)" "readAll (Body r) = Inr data"
      "fst (json_Unmarshal lib data (new_User lib)) = Some decodeErr"
      "CreateWithContext c lib user sent =
         (Inr (None, Some (Close r),
               Some (NewJiraError (Some r) (Errorf ''could not unmarshall the data into struct''))),
          sent @ [req])"
  | (ok) req r data where
      "NewRequestWithContext c lib ''POST'' ''/rest/api/2/user'' (Some user) = Inr req"
      "exec c req = (Some r, None)" "readAll (Body r) = Inr data"
      "fst (json_Unmarshal lib data (new_User lib)) = None"
      "CreateWithContext c lib user sent =
         (Inr (Some (snd (json_Unmarshal lib data (new_User lib))), Some (Close r), None),
          sent @ [req])"
proof (cases "NewRequestWithContext c lib ''POST'' ''/rest/api/2/user'' (Some user)")
  case (Inl err)
  then show ?thesis using build create_build_fails by blast
next
  case (Inr req)
  obtain resp e where ex: "exec c req = (resp, e)" by (cases "exec c req")
  show ?thesis
  proof (cases e)
    case (Some err)
    with Inr ex show ?thesis using exec create_do_fails by blast
  next
    case None
    show ?thesis
    proof (cases resp)
      case None
      with Inr ex \<open>e = None\<close> show ?thesis using nil create_nil_response by blast
    next
      case (Some r)
      show ?thesis
      proof (cases "readAll (Body r)")
        case (Inl readErr)
        with Inr ex \<open>e = None\<close> Some show ?thesis using read create_read_fails by blast
      next
        case dat: (Inr data)
        show ?thesis
        proof (cases "fst (json_Unmarshal lib data (new_User lib))")
          case None
          with Inr ex \<open>e = None\<close> Some dat show ?thesis using ok create_succeeds by blast
        next
          case (Some decodeErr)
          with Inr ex \<open>e = None\<close> \<open>resp = Some r\<close> dat show ?thesis
            using decode create_decode_fails by blast
        qed
      qed
    qed
  qed
qed

lemma create_Password_independent:
  "CreateWithContext c lib (user\<lparr>Password := p\<rparr>) sent = CreateWithContext c lib user sent"
  by (simp add: CreateWithContext_def NewRequest_Password)

lemma create_result_Password:
  assumes "CreateWithContext c lib user sent = (Inr (Some u', resp, e), sent')"
  shows "Password u' = []"
proof (cases rule: create_cases [of c lib user sent])
  case (ok req r data)
  with assms have "u' = snd (json_Unmarshal lib data (new_User lib))" by simp
  then show ?thesis by (simp add: json_Unmarshal_Password new_User_def)
qed (use assms in simp_all)

lemma create_sent:
  "snd (CreateWithContext c lib user sent) = sent \<or>
   snd (CreateWithContext c lib user sent) =
     sent @ [Request ''POST'' ''/rest/api/2/user'' (Some (marshalUser lib user))]"
  by (cases rule: create_cases [of c lib user sent]) (auto dest!: NewRequest_Inr)

subsection \<open>The other operations, and failure to build a request\<close>

lemma get_build_fails:
  "NewRequestWithContext c lib ''GET'' (''/rest/api/2/user?username='' @ username) None = Inl err \<Longrightarrow>
     GetWithContext c lib username sent = ((None, None, Some err), sent)"
  by (simp add: GetWithContext_def)

lemma get_executes:
  "NewRequestWithContext c lib ''GET'' (''/rest/api/2/user?username='' @ username) None = Inr req \<Longrightarrow>
   execInto c req (new_User lib) = (user, resp, e) \<Longrightarrow>
     GetWithContext c lib username sent =
       ((case e of Some err \<Rightarrow> (None, resp, Some (NewJiraError resp err))
         | None \<Rightarrow> (Some user, resp, None)), sent @ [req])"
  by (simp add: GetWithContext_def DoInto_def split: option.splits)

lemma getByAccountID_build_fails:
  "NewRequestWithContext c lib ''GET'' (''/rest/api/2/user?accountId='' @ accountID) None = Inl err \<Longrightarrow>
     GetByAccountIDWithContext c lib accountID sent = ((None, None, Some err), sent)"
  by (simp add: GetByAccountIDWithContext_def)

lemma getByAccountID_executes:
  "NewRequestWithContext c lib ''GET'' (''/rest/api/2/user?accountId='' @ accountID) None = Inr req \<Longrightarrow>
   execInto c req (new_User lib) = (user, resp, e) \<Longrightarrow>
     GetByAccountIDWithContext c lib accountID sent =
       ((case e of Some err \<Rightarrow> (None, resp, Some (NewJiraError resp err))
         | None \<Rightarrow> (Some user, resp, None)), sent @ [req])"
  by (simp add: GetByAccountIDWithContext_def DoInto_def split: option.splits)

lemma delete_build_fails:
  "NewRequestWithContext c lib ''DELETE'' (''/rest/api/2/user?username='' @ username) None = Inl err \<Longrightarrow>
     DeleteWithContext c lib username sent = ((None, Some err), sent)"
  by (simp add: DeleteWithContext_def)

lemma delete_executes:
  "NewRequestWithContext c lib ''DELETE'' (''/rest/api/2/user?username='' @ username) None = Inr req \<Longrightarrow>
   exec c req = (resp, e) \<Longrightarrow>
     DeleteWithContext c lib username sent =
       ((resp, case e of Some err \<Rightarrow> Some (NewJiraError resp err) | None \<Rightarrow> None), sent @ [req])"
  by (simp add: DeleteWithContext_def Do_def split: option.splits)

lemma getGroups_build_fails:
  "NewRequestWithContext c lib ''GET'' (''/rest/api/2/user/groups?username='' @ username) None = Inl err \<Longrightarrow>
     GetGroupsWithContext c lib username sent = ((None, None, Some err), sent)"
  by (simp add: GetGroupsWithContext_def)

lemma getGroups_executes:
  "NewRequestWithContext c lib ''GET'' (''/rest/api/2/user/groups?username='' @ username) None = Inr req \<Longrightarrow>
   execInto c req None = (userGroups, resp, e) \<Longrightarrow>
     GetGroupsWithContext c lib username sent =
       ((case e of Some err \<Rightarrow> (None, resp, Some (NewJiraError resp err))
         | None \<Rightarrow> (Some userGroups, resp, None)), sent @ [req])"
  by (simp add: GetGroupsWithContext_def DoInto_def split: option.splits)

lemma getSelf_build_fails:
  "NewRequestWithContext c lib ''GET'' ''rest/api/2/myself'' None = Inl err \<Longrightarrow>
     GetSelfWithContext c lib sent = ((None, None, Some err), sent)"
  by (simp add: GetSelfWithContext_def)

lemma getSelf_executes:
  "NewRequestWithContext c lib ''GET'' ''rest/api/2/myself'' None = Inr req \<Longrightarrow>
   execInto c req (new_User lib) = (user, resp, e) \<Longrightarrow>
     GetSelfWithContext c lib sent =
       ((case e of Some err \<Rightarrow> (None, resp, Some (NewJiraError resp err))
         | None \<Rightarrow> (Some user, resp, None)), sent @ [req])"
  by (simp add: GetSelfWithContext_def DoInto_def split: option.splits)

lemma find_build_fails:
  "findEndpoint property tweaks = Inr apiEndpoint \<Longrightarrow>
   NewRequestWithContext c lib ''GET'' apiEndpoint None = Inl err \<Longrightarrow>
     FindWithContext c lib property tweaks sent = (Inr (None, None, Some err), sent)"
  by (simp add: FindWithContext_def)

lemma find_executes:
  "findEndpoint property tweaks = Inr apiEndpoint \<Longrightarrow>
   NewRequestWithContext c lib ''GET'' apiEndpoint None = Inr req \<Longrightarrow>
   execInto c req (Some []) = (users, resp, e) \<Longrightarrow>
     FindWithContext c lib property tweaks sent =
       (Inr (case e of Some err \<Rightarrow> (None, resp, Some (NewJiraError resp err))
             | None \<Rightarrow> (users, resp, None)), sent @ [req])"
  by (simp add: FindWithContext_def DoInto_def split: option.splits)

lemma NewRequest_fixedClient:
  "NewRequestWithContext (fixedClient buildErr resp err) lib method urlStr body =
     (case buildErr of Some e \<Rightarrow> Inl e
      | None \<Rightarrow> Inr (Request method urlStr (map_option (marshalUser lib) body)))"
  by (simp add: NewRequestWithContext_def fixedClient_def)

lemma exec_fixedClient: "exec (fixedClient buildErr resp err) req = (resp, err)"
  "execInto (fixedClient buildErr resp err) req v = (v, resp, err)"
  by (simp_all add: fixedClient_def)

text \<open>
  Claim C10. In every operation, when building the request fails the operation
  returns at once: the error is the builder's own, not wrapped, the result and
  the response are nil, and no request has been executed (the list of executed
  requests is the one the operation started with).
\<close>

theorem construction_failure_returns_at_once:
  "(NewRequestWithContext c1 lib ''GET'' (''/rest/api/2/user?username='' @ username) None = Inl err \<longrightarrow>
      GetWithContext c1 lib username sent = ((None, None, Some err), sent))
   \<and> (NewRequestWithContext c1 lib ''GET'' (''/rest/api/2/user?accountId='' @ accountID) None = Inl err \<longrightarrow>
      GetByAccountIDWithContext c1 lib accountID sent = ((None, None, Some err), sent))
   \<and> (NewRequestWithContext c2 lib ''POST'' ''/rest/api/2/user'' (Some user) = Inl err \<longrightarrow>
      CreateWithContext c2 lib user sent = (Inr (None, None, Some err), sent))
   \<and> (NewRequestWithContext c2 lib ''DELETE'' (''/rest/api/2/user?username='' @ username) None = Inl err \<longrightarrow>
      DeleteWithContext c2 lib username sent = ((None, Some err), sent))
   \<and> (NewRequestWithContext c3 lib ''GET'' (''/rest/api/2/user/groups?username='' @ username) None = Inl err \<longrightarrow>
      GetGroupsWithContext c3 lib username sent = ((None, None, Some err), sent))
   \<and> (NewRequestWithContext c1 lib ''GET'' ''rest/api/2/myself'' None = Inl err \<longrightarrow>
      GetSelfWithContext c1 lib sent = ((None, None, Some err), sent))
   \<and> (findEndpoint property tweaks = Inr apiEndpoint \<longrightarrow>
      NewRequestWithContext c4 lib ''GET'' apiEndpoint None = Inl err \<longrightarrow>
      FindWithContext c4 lib property tweaks sent = (Inr (None, None, Some err), sent))"
  by (simp add: get_build_fails getByAccountID_build_fails create_build_fails delete_build_fails
    getGroups_build_fails getSelf_build_fails find_build_fails)

theorem construction_failure_witness:
  "GetWithContext (fixedClient (Some (Errorf ''invalid URL'')) None None) tinyJSON ''jdoe'' [] =
     ((None, None, Some (Errorf ''invalid URL'')), [])
   \<and> GetByAccountIDWithContext (fixedClient (Some (Errorf ''invalid URL'')) None None) tinyJSON ''abc'' [] =
     ((None, None, Some (Errorf ''invalid URL'')), [])
   \<and> CreateWithContext (fixedClient (Some (Errorf ''invalid URL'')) None None
        :: unit Client) tinyJSON jdoe [] =
     (Inr (None, None, Some (Errorf ''invalid URL'')), [])
   \<and> DeleteWithContext (fixedClient (Some (Errorf ''invalid URL'')) None None
        :: unit Client) tinyJSON ''jdoe'' [] =
     ((None, Some (Errorf ''invalid URL'')), [])
   \<and> GetGroupsWithContext (fixedClient (Some (Errorf ''invalid URL'')) None None) tinyJSON ''jdoe'' [] =
     ((None, None, Some (Errorf ''invalid URL'')), [])
   \<and> GetSelfWithContext (fixedClient (Some (Errorf ''invalid URL'')) None None) tinyJSON [] =
     ((None, None, Some (Errorf ''invalid URL'')), [])
   \<and> FindWithContext (fixedClient (Some (Errorf ''invalid URL'')) None None) tinyJSON ''jdoe''
        [WithMaxResults 10] [] =
     (Inr (None, None, Some (Errorf ''invalid URL'')), [])"
proof -
  have ep: "findEndpoint ''jdoe'' [WithMaxResults 10] =
      Inr ''/rest/api/2/user/search?username=jdoe&maxResults=10''"
    using findQuery_modifiers [of "''jdoe''" "[OptMaxResults 10]"]
    by (simp add: findEndpoint_def paramText_def Sprintf_d_def decimal.simps)
  show ?thesis
    using construction_failure_returns_at_once
      [of "fixedClient (Some (Errorf ''invalid URL'')) None None" tinyJSON "''jdoe''"
          "Errorf ''invalid URL''" "[]" "''abc''"
          "fixedClient (Some (Errorf ''invalid URL'')) None None :: unit Client" jdoe
          "fixedClient (Some (Errorf ''invalid URL'')) None None"
          "''jdoe''" "[WithMaxResults 10]"
          "''/rest/api/2/user/search?username=jdoe&maxResults=10''"
          "fixedClient (Some (Errorf ''invalid URL'')) None None"]
    by (simp add: NewRequest_fixedClient ep)
qed

subsection \<open>The password\<close>

lemma new_User_tiny: "new_User tinyJSON =
     \<lparr>Self = [], AccountID = [], AccountType = [], Name = [], Key = [], Password = [],
      EmailAddress = [], AvatarUrls = (), DisplayName = [], Active = False,
      TimeZone = [], Locale = [], ApplicationKeys = None\<rparr>"
  by (simp add: new_User_def tinyJSON_def)

text \<open>
  Claim C1. For every User given to create: a User that differs only in its
  password makes create behave the same, request and result alike; the JSON
  body of the request has no \<open>password\<close> key; the only request create
  executes is the POST of that body; and a User that create gives back has the
  empty password, whatever the response holds.
\<close>

theorem create_never_exposes_password:
  "CreateWithContext c lib (user\<lparr>Password := p\<rparr>) sent = CreateWithContext c lib user sent
   \<and> ''password'' \<notin> set (jsonKeys (marshalUser lib user))
   \<and> (snd (CreateWithContext c lib user sent) = sent
        \<or> snd (CreateWithContext c lib user sent) =
             sent @ [Request ''POST'' ''/rest/api/2/user'' (Some (marshalUser lib user))])
   \<and> (\<forall>u' resp e sent'. CreateWithContext c lib user sent = (Inr (Some u', resp, e), sent') \<longrightarrow>
          Password u' = [])"
  using create_Password_independent marshalUser_no_password create_sent create_result_Password
  by blast

theorem create_never_exposes_password_witness:
  "CreateWithContext
      (fixedClient None
         (Some (created201 ''{\"name\":\"jdoe\",\"password\":\"hunter2\",\"active\":true}'')) None
       :: unit Client) tinyJSON jdoe [] =
     (Inr (Some ((new_User tinyJSON)\<lparr>Name := ''jdoe'', Active := True\<rparr>),
           Some (Close (created201 ''{\"name\":\"jdoe\",\"password\":\"hunter2\",\"active\":true}'')),
           None),
      [Request ''POST'' ''/rest/api/2/user''
         (Some (JObject [(''name'', JString ''jdoe''), (''avatarUrls'', JObject []),
                         (''active'', JBool True)]))])
   \<and> Password ((new_User tinyJSON)\<lparr>Name := ''jdoe'', Active := True\<rparr>) = []"
proof -
  let ?doc = "''{\"name\":\"jdoe\",\"password\":\"hunter2\",\"active\":true}''"
  let ?c = "fixedClient None (Some (created201 ?doc)) None :: unit Client"
  have m: "marshalUser tinyJSON jdoe =
      JObject [(''name'', JString ''jdoe''), (''avatarUrls'', JObject []), (''active'', JBool True)]"
    by (simp add: marshalUser_members jdoe_def new_User_tiny) (simp add: tinyJSON_def)
  have f: "findField tinyJSON ''name'' = Some (stringField ''Name'' ''name,omitempty'' Name (\<lambda>x u. u\<lparr>Name := x\<rparr>))"
    "findField tinyJSON ''password'' = None"
    "findField tinyJSON ''active'' = Some \<lparr>goName = ''Active'', jsonTag = ''active,omitempty'',
       getField = (\<lambda>u. GoBool (Active u)),
       setField = (\<lambda>v u. case v of GoBool x \<Rightarrow> u\<lparr>Active := x\<rparr> | _ \<Rightarrow> u)\<rparr>"
    by (simp_all add: findField_def userFields_def skipped_def jsonKey_def stringField_def
        tagName_def tinyJSON_def)
  have p: "parse tinyJSON ?doc = Some (JObject [(''name'', JString ''jdoe''),
      (''password'', JString ''hunter2''), (''active'', JBool True)])"
    by (simp add: tinyJSON_def)
  have u: "json_Unmarshal tinyJSON ?doc (new_User tinyJSON) =
      (None, (new_User tinyJSON)\<lparr>Name := ''jdoe'', Active := True\<rparr>)"
    by (simp add: json_Unmarshal_def p decodeMember_def f stringField_def new_User_def)
  have r: "CreateWithContext ?c tinyJSON jdoe [] =
     (Inr (Some ((new_User tinyJSON)\<lparr>Name := ''jdoe'', Active := True\<rparr>),
           Some (Close (created201 ?doc)), None),
      [Request ''POST'' ''/rest/api/2/user'' (Some (marshalUser tinyJSON jdoe))])"
    using create_succeeds [of ?c tinyJSON jdoe
        "Request ''POST'' ''/rest/api/2/user'' (Some (marshalUser tinyJSON jdoe))"
        "created201 ?doc" ?doc "[]"]
    by (simp add: NewRequest_fixedClient exec_fixedClient created201_def u)
  show ?thesis
    using create_never_exposes_password [of ?c tinyJSON "''secret''" jdoe "[]"] r m
    by simp
qed

subsection \<open>The response body of create\<close>

text \<open>
  Claim C5. When create's request has been executed without error, a response
  body that cannot be read gives the wrapped error ``could not read the
  returned data'', and a body that is empty, is not JSON, or is JSON that does
  not decode into a User without error gives the wrapped error ``could not
  unmarshall the data into struct''; in both cases the User is nil. A create
  that returns no error returns a User, decoded without error from the
  non-empty body.
\<close>

theorem create_bad_body_is_an_error:
  assumes "NewRequestWithContext c lib ''POST'' ''/rest/api/2/user'' (Some user) = Inr req"
    and "exec c req = (Some r, None)"
  shows "(readAll (Body r) = Inl readErr \<longrightarrow>
            CreateWithContext c lib user sent =
              (Inr (None, Some (Close r),
                    Some (NewJiraError (Some r) (Errorf ''could not read the returned data''))),
               sent @ [req]))
       \<and> (readAll (Body r) = Inr data \<longrightarrow>
            (data = [] \<or> parse lib data = None
             \<or> (\<exists>j. parse lib data = Some j \<and> fst (unmarshalValue lib j (new_User lib)) \<noteq> None)) \<longrightarrow>
            CreateWithContext c lib user sent =
              (Inr (None, Some (Close r),
                    Some (NewJiraError (Some r)
                            (Errorf ''could not unmarshall the data into struct''))),
               sent @ [req]))
       \<and> (\<forall>u resp sent'. CreateWithContext c lib user sent = (Inr (u, resp, None), sent') \<longrightarrow>
            (\<exists>data j. readAll (Body r) = Inr data \<and> data \<noteq> [] \<and> parse lib data = Some j
               \<and> unmarshalValue lib j (new_User lib) = (None, the u) \<and> u \<noteq> None))"
proof (intro conjI impI allI)
  assume "readAll (Body r) = Inl readErr"
  with assms show "CreateWithContext c lib user sent =
      (Inr (None, Some (Close r),
            Some (NewJiraError (Some r) (Errorf ''could not read the returned data''))),
       sent @ [req])"
    by (rule create_read_fails)
next
  assume d: "readAll (Body r) = Inr data"
    and bad: "data = [] \<or> parse lib data = None
      \<or> (\<exists>j. parse lib data = Some j \<and> fst (unmarshalValue lib j (new_User lib)) \<noteq> None)"
  from bad have "fst (json_Unmarshal lib data (new_User lib)) \<noteq> None"
    by (auto simp add: json_Unmarshal_def)
  then obtain decodeErr where "fst (json_Unmarshal lib data (new_User lib)) = Some decodeErr"
    by blast
  with assms d show "CreateWithContext c lib user sent =
      (Inr (None, Some (Close r),
            Some (NewJiraError (Some r) (Errorf ''could not unmarshall the data into struct''))),
       sent @ [req])"
    by (rule create_decode_fails)
next
  fix u resp sent'
  assume ok: "CreateWithContext c lib user sent = (Inr (u, resp, None), sent')"
  show "\<exists>data j. readAll (Body r) = Inr data \<and> data \<noteq> [] \<and> parse lib data = Some j
               \<and> unmarshalValue lib j (new_User lib) = (None, the u) \<and> u \<noteq> None"
  proof (cases rule: create_cases [of c lib user sent])
    case (ok req' r' data')
    with assms have rr: "r' = r" by simp
    from ok \<open>CreateWithContext c lib user sent = (Inr (u, resp, None), sent')\<close>
    have u: "u = Some (snd (json_Unmarshal lib data' (new_User lib)))" by simp
    from ok(4) have ne: "data' \<noteq> []" by (auto simp add: json_Unmarshal_def)
    with ok(4) obtain j where j: "parse lib data' = Some j"
      by (cases "parse lib data'") (auto simp add: json_Unmarshal_def)
    with ne have "json_Unmarshal lib data' (new_User lib) = unmarshalValue lib j (new_User lib)"
      by (simp add: json_Unmarshal_def)
    with ok(4) u have "unmarshalValue lib j (new_User lib) = (None, the u)"
      by (metis option.sel prod.collapse)
    with ok(3) rr ne j u show ?thesis by auto
  qed (use assms ok in auto)
qed

theorem create_empty_body_witness:
  "NewRequestWithContext (fixedClient None (Some (created201 [])) None :: unit Client) tinyJSON
       ''POST'' ''/rest/api/2/user'' (Some jdoe) =
     Inr (Request ''POST'' ''/rest/api/2/user'' (Some (marshalUser tinyJSON jdoe)))
   \<and> exec (fixedClient None (Some (created201 [])) None :: unit Client)
       (Request ''POST'' ''/rest/api/2/user'' (Some (marshalUser tinyJSON jdoe))) =
     (Some (created201 []), None)
   \<and> readAll (Body (created201 [])) = Inr []
   \<and> CreateWithContext (fixedClient None (Some (created201 [])) None :: unit Client) tinyJSON jdoe [] =
     (Inr (None, Some (Close (created201 [])),
           Some (NewJiraError (Some (created201 []))
                   (Errorf ''could not unmarshall the data into struct''))),
      [Request ''POST'' ''/rest/api/2/user'' (Some (marshalUser tinyJSON jdoe))])"
  using create_bad_body_is_an_error
    [of "fixedClient None (Some (created201 [])) None :: unit Client" tinyJSON jdoe
        "Request ''POST'' ''/rest/api/2/user'' (Some (marshalUser tinyJSON jdoe))"
        "created201 []" "[]" "[]" "[]"]
  by (simp add: NewRequest_fixedClient exec_fixedClient created201_def)

subsection \<open>Closing the response body of create\<close>

lemma closeCalls_Close: "closeCalls (Body (Close r)) = Suc (closeCalls (Body r))"
  by (simp add: Close_def)

text \<open>
  Claim C9 says that every exit of create closes the response body exactly
  once, the exit where executing the request returns an error included. On
  that exit create returns before its deferred \<open>Close\<close> is registered and
  without calling \<open>NewJiraError\<close>: with a client whose \<open>Do\<close> returns a 401
  response and an error, create gives the response back with no \<open>Close\<close>
  called on its body.
\<close>

theorem create_error_exit_leaves_body_open:
  "CreateWithContext (fixedClient None (Some unauthorized401) (Some (Errorf ''401 Unauthorized''))
                       :: unit Client) tinyJSON jdoe [] =
     (Inr (None, Some unauthorized401, Some (Errorf ''401 Unauthorized'')),
      [Request ''POST'' ''/rest/api/2/user'' (Some (marshalUser tinyJSON jdoe))])
   \<and> closeCalls (Body unauthorized401) = 0"
  using create_do_fails
    [of "fixedClient None (Some unauthorized401) (Some (Errorf ''401 Unauthorized'')) :: unit Client"
        tinyJSON jdoe "Request ''POST'' ''/rest/api/2/user'' (Some (marshalUser tinyJSON jdoe))"
        "Some unauthorized401" "Errorf ''401 Unauthorized''" "[]"]
  by (simp add: NewRequest_fixedClient exec_fixedClient unauthorized401_def)

subsection \<open>Errors of the execution step\<close>

text \<open>
  Six operations wrap the error of the execution step with \<open>NewJiraError\<close>.
\<close>

lemma siblings_wrap_execution_error:
  "(NewRequestWithContext c1 lib ''GET'' (''/rest/api/2/user?username='' @ username) None = Inr req \<longrightarrow>
      execInto c1 req (new_User lib) = (user, resp, Some err) \<longrightarrow>
      GetWithContext c1 lib username sent =
        ((None, resp, Some (NewJiraError resp err)), sent @ [req]))
   \<and> (NewRequestWithContext c1 lib ''GET'' (''/rest/api/2/user?accountId='' @ accountID) None = Inr req \<longrightarrow>
      execInto c1 req (new_User lib) = (user, resp, Some err) \<longrightarrow>
      GetByAccountIDWithContext c1 lib accountID sent =
        ((None, resp, Some (NewJiraError resp err)), sent @ [req]))
   \<and> (NewRequestWithContext c2 lib ''DELETE'' (''/rest/api/2/user?username='' @ username) None = Inr req \<longrightarrow>
      exec c2 req = (resp, Some err) \<longrightarrow>
      DeleteWithContext c2 lib username sent = ((resp, Some (NewJiraError resp err)), sent @ [req]))
   \<and> (NewRequestWithContext c3 lib ''GET'' (''/rest/api/2/user/groups?username='' @ username) None = Inr req \<longrightarrow>
      execInto c3 req None = (userGroups, resp, Some err) \<longrightarrow>
      GetGroupsWithContext c3 lib username sent =
        ((None, resp, Some (NewJiraError resp err)), sent @ [req]))
   \<and> (NewRequestWithContext c1 lib ''GET'' ''rest/api/2/myself'' None = Inr req \<longrightarrow>
      execInto c1 req (new_User lib) = (user, resp, Some err) \<longrightarrow>
      GetSelfWithContext c1 lib sent =
        ((None, resp, Some (NewJiraError resp err)), sent @ [req]))
   \<and> (findEndpoint property tweaks = Inr apiEndpoint \<longrightarrow>
      NewRequestWithContext c4 lib ''GET'' apiEndpoint None = Inr req \<longrightarrow>
      execInto c4 req (Some []) = (users, resp, Some err) \<longrightarrow>
      FindWithContext c4 lib property tweaks sent =
        (Inr (None, resp, Some (NewJiraError resp err)), sent @ [req]))"
  by (simp add: get_executes getByAccountID_executes delete_executes getGroups_executes
      getSelf_executes find_executes)

text \<open>
  Claim C2 says that every operation wraps the error of the execution step.
  create does not: with a client whose \<open>Do\<close> returns a 401 response and an
  error, create returns that error as it is, where get-by-username and
  delete-by-username return it wrapped with the response.
\<close>

theorem create_returns_raw_execution_error:
  "fst (CreateWithContext
          (fixedClient None (Some unauthorized401) (Some (Errorf ''request failed'')) :: unit Client)
          tinyJSON jdoe []) =
     Inr (None, Some unauthorized401, Some (Errorf ''request failed''))
   \<and> fst (GetWithContext
          (fixedClient None (Some unauthorized401) (Some (Errorf ''request failed'')))
          tinyJSON ''jdoe'' []) =
     (None, Some unauthorized401,
      Some (NewJiraError (Some unauthorized401) (Errorf ''request failed'')))
   \<and> fst (DeleteWithContext
          (fixedClient None (Some unauthorized401) (Some (Errorf ''request failed'')) :: unit Client)
          tinyJSON ''jdoe'' []) =
     (Some unauthorized401,
      Some (NewJiraError (Some unauthorized401) (Errorf ''request failed'')))"
  by (simp add: CreateWithContext_def GetWithContext_def DeleteWithContext_def
      NewRequest_fixedClient Do_def DoInto_def exec_fixedClient)

subsection \<open>The URL of get-by-username\<close>

lemma unreserved_not_separator:
  "unreserved c \<Longrightarrow> c \<noteq> CHR ''&'' \<and> c \<noteq> CHR ''='' \<and> c \<noteq> CHR ''#''"
  by (auto simp add: unreserved_def)

lemma splitOn_absent: "c \<notin> set s \<Longrightarrow> splitOn c s = [s]"
  by (induction s) auto

lemma get_sent:
  "snd (GetWithContext c lib username sent) =
     (case rejects c ''GET'' (''/rest/api/2/user?username='' @ username) None of
        Some err \<Rightarrow> sent
      | None \<Rightarrow> sent @ [Request ''GET'' (''/rest/api/2/user?username='' @ username) None])"
proof (cases "rejects c ''GET'' (''/rest/api/2/user?username='' @ username) None")
  case None
  then have b: "NewRequestWithContext c lib ''GET'' (''/rest/api/2/user?username='' @ username) None =
      Inr (Request ''GET'' (''/rest/api/2/user?username='' @ username) None)"
    by (simp add: NewRequestWithContext_def)
  obtain user resp e where
    "execInto c (Request ''GET'' (''/rest/api/2/user?username='' @ username) None) (new_User lib) =
       (user, resp, e)"
    by (metis prod.exhaust)
  from get_executes [OF b this] None show ?thesis by simp
next
  case (Some err)
  then have "NewRequestWithContext c lib ''GET'' (''/rest/api/2/user?username='' @ username) None = Inl err"
    by (simp add: NewRequestWithContext_def)
  from get_build_fails [OF this] Some show ?thesis by simp
qed

text \<open>
  Claim C6, as stated, fails: the username is not URL-encoded. For the
  username \<open>a&b=c\<close> the request has the URL
  \<open>/rest/api/2/user?username=a&b=c\<close>, whose query reads as two parameters,
  \<open>username=a\<close> and \<open>b=c\<close>.
\<close>

theorem get_query_splits_on_reserved_characters:
  "snd (GetWithContext (fixedClient None (Some (ok200 ''{}'')) None) tinyJSON ''a&b=c'' []) =
     [Request ''GET'' ''/rest/api/2/user?username=a&b=c'' None]
   \<and> queryParams (queryOf ''/rest/api/2/user?username=a&b=c'') =
     [(''username'', ''a''), (''b'', ''c'')]"
  by (simp add: get_sent fixedClient_def queryParams_def queryOf_def)

text \<open>
  Claim C6, amended. get-by-username executes exactly one request when the
  request can be built and none otherwise; the request is a GET with no body
  whose URL is \<open>/rest/api/2/user?username=\<close> followed by the username byte
  for byte. When the username is made of unreserved characters only, the
  query reads as the single parameter \<open>username\<close> with the username as its
  value.
\<close>

theorem get_embeds_username_verbatim:
  "snd (GetWithContext c lib username sent) =
     (case rejects c ''GET'' (''/rest/api/2/user?username='' @ username) None of
        Some err \<Rightarrow> sent
      | None \<Rightarrow> sent @ [Request ''GET'' (''/rest/api/2/user?username='' @ username) None])
   \<and> ((\<forall>ch \<in> set username. unreserved ch) \<longrightarrow>
        queryParams (queryOf (''/rest/api/2/user?username='' @ username)) = [(''username'', username)])"
proof (intro conjI impI)
  assume u: "\<forall>ch \<in> set username. unreserved ch"
  then have a: "CHR ''&'' \<notin> set username \<and> CHR ''='' \<notin> set username"
    and h: "CHR ''#'' \<notin> set username"
    using unreserved_not_separator by blast+
  from h have "takeWhile (\<lambda>c. c \<noteq> CHR ''#'') username = username"
    by (auto simp add: takeWhile_eq_all_conv)
  then have q: "queryOf (''/rest/api/2/user?username='' @ username) = ''username='' @ username"
    by (simp add: queryOf_def)
  from a have "CHR ''&'' \<notin> set (''username='' @ username)" by simp
  then have s: "splitOn (CHR ''&'') (''username='' @ username) = [''username='' @ username]"
    by (rule splitOn_absent)
  from a have t: "takeWhile (\<lambda>c. c \<noteq> CHR ''='') username = username"
    "dropWhile (\<lambda>c. c \<noteq> CHR ''='') username = []"
    by (auto simp add: takeWhile_eq_all_conv dropWhile_eq_Nil_conv)
  show "queryParams (queryOf (''/rest/api/2/user?username='' @ username)) = [(''username'', username)]"
    unfolding q queryParams_def s by (simp add: t)
qed (rule get_sent)

theorem get_embeds_username_verbatim_witness:
  "snd (GetWithContext (fixedClient None (Some (ok200 ''{}'')) None) tinyJSON ''jdoe'' []) =
     [Request ''GET'' ''/rest/api/2/user?username=jdoe'' None]
   \<and> queryParams (queryOf ''/rest/api/2/user?username=jdoe'') = [(''username'', ''jdoe'')]"
  using get_embeds_username_verbatim
    [of "fixedClient None (Some (ok200 ''{}'')) None" tinyJSON "''jdoe''" "[]"]
  by (simp add: fixedClient_def unreserved_def)

subsection \<open>Zero values and absent keys\<close>

lemma findField_active:
  "findField lib ''active'' = Some \<lparr>goName = ''Active'', jsonTag = ''active,omitempty'',
       getField = (\<lambda>u. GoBool (Active u)),
       setField = (\<lambda>v u. case v of GoBool x \<Rightarrow> u\<lparr>Active := x\<rparr> | _ \<Rightarrow> u)\<rparr>"
  by (simp add: findField_def userFields_def skipped_def jsonKey_def stringField_def tagName_def)

lemma findField_name:
  "findField lib ''name'' = Some (stringField ''Name'' ''name,omitempty'' Name (\<lambda>x u. u\<lparr>Name := x\<rparr>))"
  by (simp add: findField_def userFields_def skipped_def jsonKey_def stringField_def tagName_def)

lemma decode_active:
  "unmarshalValue lib (JObject [(''active'', JBool b)]) u = (None, u\<lparr>Active := b\<rparr>)"
  by (simp add: decodeMember_def findField_active)

lemma decode_name:
  "unmarshalValue lib (JObject [(''name'', JString s)]) u = (None, u\<lparr>Name := s\<rparr>)"
  by (simp add: decodeMember_def findField_name stringField_def)

text \<open>
  Claim C8, as stated, fails: decoding a document that sets \<open>active\<close> to
  false, or \<open>name\<close> to the empty string, gives the same User as decoding the
  document without the key; and a User whose flag is false and whose name is
  empty is serialized as the User with all fields zero is, with neither key.
\<close>

theorem zero_values_collapse_into_absence:
  "unmarshalValue tinyJSON (JObject [(''active'', JBool False)]) (new_User tinyJSON) =
     unmarshalValue tinyJSON (JObject []) (new_User tinyJSON)
   \<and> unmarshalValue tinyJSON (JObject [(''name'', JString [])]) (new_User tinyJSON) =
     unmarshalValue tinyJSON (JObject []) (new_User tinyJSON)
   \<and> marshalUser tinyJSON ((new_User tinyJSON)\<lparr>Active := False, Name := []\<rparr>) =
     JObject [(''avatarUrls'', JObject [])]
   \<and> marshalUser tinyJSON (new_User tinyJSON) = JObject [(''avatarUrls'', JObject [])]"
proof -
  have a: "unmarshalValue tinyJSON (JObject [(''active'', JBool False)]) (new_User tinyJSON) =
      (None, new_User tinyJSON)"
    unfolding decode_active by (simp add: new_User_def)
  have n: "unmarshalValue tinyJSON (JObject [(''name'', JString [])]) (new_User tinyJSON) =
      (None, new_User tinyJSON)"
    unfolding decode_name by (simp add: new_User_def)
  have e: "unmarshalValue tinyJSON (JObject []) (new_User tinyJSON) = (None, new_User tinyJSON)"
    by simp
  have z: "(new_User tinyJSON)\<lparr>Active := False, Name := []\<rparr> = new_User tinyJSON"
    by (simp add: new_User_def)
  have m: "marshalUser tinyJSON (new_User tinyJSON) = JObject [(''avatarUrls'', JObject [])]"
    by (simp add: marshalUser_members new_User_def) (simp add: tinyJSON_def)
  show ?thesis
    unfolding a n e z m by simp
qed

text \<open>
  Claim C8, amended. The fields of a User are plain values with
  omit-when-empty tags. Serialization has the key \<open>active\<close> exactly when the
  flag is true and the key of a string field exactly when the string is not
  empty. Decoding the empty object changes nothing, decoding \<open>active\<close> or
  \<open>name\<close> sets the field to the value given, so decoding false or the empty
  string into a new User gives the new User, as decoding the empty object
  does: a zero value and an absent key are not told apart.
\<close>

theorem zero_values_are_omitted:
  "(''active'' \<in> set (jsonKeys (marshalUser lib u))) = Active u
   \<and> (''self'' \<in> set (jsonKeys (marshalUser lib u))) = (Self u \<noteq> [])
   \<and> (''accountId'' \<in> set (jsonKeys (marshalUser lib u))) = (AccountID u \<noteq> [])
   \<and> (''accountType'' \<in> set (jsonKeys (marshalUser lib u))) = (AccountType u \<noteq> [])
   \<and> (''name'' \<in> set (jsonKeys (marshalUser lib u))) = (Name u \<noteq> [])
   \<and> (''key'' \<in> set (jsonKeys (marshalUser lib u))) = (Key u \<noteq> [])
   \<and> (''emailAddress'' \<in> set (jsonKeys (marshalUser lib u))) = (EmailAddress u \<noteq> [])
   \<and> (''displayName'' \<in> set (jsonKeys (marshalUser lib u))) = (DisplayName u \<noteq> [])
   \<and> (''timeZone'' \<in> set (jsonKeys (marshalUser lib u))) = (TimeZone u \<noteq> [])
   \<and> (''locale'' \<in> set (jsonKeys (marshalUser lib u))) = (Locale u \<noteq> [])
   \<and> unmarshalValue lib (JObject []) v = (None, v)
   \<and> unmarshalValue lib (JObject [(''active'', JBool b)]) v = (None, v\<lparr>Active := b\<rparr>)
   \<and> unmarshalValue lib (JObject [(''name'', JString s)]) v = (None, v\<lparr>Name := s\<rparr>)
   \<and> unmarshalValue lib (JObject [(''active'', JBool False)]) (new_User lib) = (None, new_User lib)
   \<and> unmarshalValue lib (JObject [(''name'', JString [])]) (new_User lib) = (None, new_User lib)"
proof -
  have k: "(''active'' \<in> set (jsonKeys (marshalUser lib u))) = Active u"
    "(''self'' \<in> set (jsonKeys (marshalUser lib u))) = (Self u \<noteq> [])"
    "(''accountId'' \<in> set (jsonKeys (marshalUser lib u))) = (AccountID u \<noteq> [])"
    "(''accountType'' \<in> set (jsonKeys (marshalUser lib u))) = (AccountType u \<noteq> [])"
    "(''name'' \<in> set (jsonKeys (marshalUser lib u))) = (Name u \<noteq> [])"
    "(''key'' \<in> set (jsonKeys (marshalUser lib u))) = (Key u \<noteq> [])"
    "(''emailAddress'' \<in> set (jsonKeys (marshalUser lib u))) = (EmailAddress u \<noteq> [])"
    "(''displayName'' \<in> set (jsonKeys (marshalUser lib u))) = (DisplayName u \<noteq> [])"
    "(''timeZone'' \<in> set (jsonKeys (marshalUser lib u))) = (TimeZone u \<noteq> [])"
    "(''locale'' \<in> set (jsonKeys (marshalUser lib u))) = (Locale u \<noteq> [])"
    by (auto simp add: marshalUser_members split: option.splits if_splits)
  have z: "unmarshalValue lib (JObject [(''active'', JBool False)]) (new_User lib) = (None, new_User lib)"
    "unmarshalValue lib (JObject [(''name'', JString [])]) (new_User lib) = (None, new_User lib)"
    unfolding decode_active decode_name by (simp_all add: new_User_def)
  show ?thesis
    using k z decode_active [of lib b v] decode_name [of lib s v] by simp
qed

subsection \<open>The requests the operations execute\<close>

lemma NewRequest_nil_body:
  "NewRequestWithContext c lib method urlStr None =
     (case rejects c method urlStr None of
        Some err \<Rightarrow> Inl err
      | None \<Rightarrow> Inr (Request method urlStr None))"
  by (simp add: NewRequestWithContext_def)





lemma find_sent:
  assumes "findEndpoint property tweaks = Inr apiEndpoint"
  shows "snd (FindWithContext c lib property tweaks sent) =
     (case rejects c ''GET'' apiEndpoint None of
        Some err \<Rightarrow> sent
      | None \<Rightarrow> sent @ [Request ''GET'' apiEndpoint None])"
proof (cases "rejects c ''GET'' apiEndpoint None")
  case None
  then have b: "NewRequestWithContext c lib ''GET'' apiEndpoint None =
      Inr (Request ''GET'' apiEndpoint None)"
    by (simp add: NewRequest_nil_body)
  obtain users resp e where
    "execInto c (Request ''GET'' apiEndpoint None) (Some []) = (users, resp, e)"
    by (metis prod.exhaust)
  from find_executes [OF assms b this] None show ?thesis by simp
next
  case (Some err)
  then have "NewRequestWithContext c lib ''GET'' apiEndpoint None = Inl err"
    by (simp add: NewRequest_nil_body)
  from find_build_fails [OF assms this] Some show ?thesis by simp
qed


lemma findEndpoint_modifiers:
  "findEndpoint property (map modifier ms) =
     Inr (''/rest/api/2/user/search?'' @
          joinAmp ((''username='' @ property) # map (\<lambda>m. paramText (modifierParam m)) ms))"
  by (simp add: findEndpoint_def findQuery_modifiers paramText_def comp_def)

lemma find_sent_modifiers:
  "snd (FindWithContext c lib property (map modifier ms) sent) =
     (case rejects c ''GET''
             (''/rest/api/2/user/search?'' @
              joinAmp ((''username='' @ property) # map (\<lambda>m. paramText (modifierParam m)) ms))
             None of
        Some err \<Rightarrow> sent
      | None \<Rightarrow>
          sent @ [Request ''GET''
                    (''/rest/api/2/user/search?'' @
                     joinAmp ((''username='' @ property) # map (\<lambda>m. paramText (modifierParam m)) ms))
                    None])"
  by (rule find_sent [OF findEndpoint_modifiers])

lemma resolveEndpoint_slash:
  "resolveEndpoint basePath (''/rest/api/2/'' @ rest) = basePath @ ''/rest/api/2/'' @ rest"
  "resolveEndpoint basePath (''rest/api/2/'' @ rest) = basePath @ ''/rest/api/2/'' @ rest"
  by (simp_all add: resolveEndpoint_def)

text \<open>
  Claim C3. With no modifiers, find/search executes one GET request (none when
  the request cannot be built) whose query string is exactly
  \<open>username=<property>\<close>, one parameter and no trailing separator. With a list
  of the provided modifiers the query string of the request is that parameter
  followed by one parameter per modifier, in the caller's order, joined by
  \<open>&\<close>; the parameter of a modifier is its name, \<open>=\<close>, and its formatted
  argument. In particular \<open>Find(ctx, "jdoe", WithMaxResults(10),
  WithActive(true))\<close> executes the request for
  \<open>/rest/api/2/user/search?username=jdoe&maxResults=10&includeActive=true\<close>.
\<close>

theorem find_query_string:
  "snd (FindWithContext c lib property [] sent) =
     (case rejects c ''GET'' (''/rest/api/2/user/search?username='' @ property) None of
        Some err \<Rightarrow> sent
      | None \<Rightarrow> sent @ [Request ''GET'' (''/rest/api/2/user/search?username='' @ property) None])
   \<and> snd (FindWithContext c lib property (map modifier ms) sent) =
     (case rejects c ''GET''
             (''/rest/api/2/user/search?'' @
              joinAmp ((''username='' @ property) # map (\<lambda>m. paramText (modifierParam m)) ms))
             None of
        Some err \<Rightarrow> sent
      | None \<Rightarrow>
          sent @ [Request ''GET''
                    (''/rest/api/2/user/search?'' @
                     joinAmp ((''username='' @ property) # map (\<lambda>m. paramText (modifierParam m)) ms))
                    None])
   \<and> paramText (modifierParam (OptMaxResults n)) = ''maxResults='' @ Sprintf_d n
   \<and> paramText (modifierParam (OptStartAt n)) = ''startAt='' @ Sprintf_d n
   \<and> paramText (modifierParam (OptActive b)) = ''includeActive='' @ Sprintf_t b
   \<and> paramText (modifierParam (OptInactive b)) = ''includeInactive='' @ Sprintf_t b
   \<and> snd (FindWithContext (fixedClient None (Some (ok200 ''[]'')) None) lib ''jdoe''
             [WithMaxResults 10, WithActive True] sent) =
     sent @ [Request ''GET''
               ''/rest/api/2/user/search?username=jdoe&maxResults=10&includeActive=true'' None]
   \<and> findQuery property [] = Inr (''username='' @ property)
   \<and> findQuery property (map modifier ms) =
       Inr (joinAmp ((''username='' @ property) # map (\<lambda>m. paramText (modifierParam m)) ms))
   \<and> findQuery ''jdoe'' [WithMaxResults 10, WithActive True] =
       Inr ''username=jdoe&maxResults=10&includeActive=true''"
proof -
  have a: "findQuery property (map modifier ms) =
       Inr (joinAmp ((''username='' @ property) # map (\<lambda>m. paramText (modifierParam m)) ms))" for ms
    by (simp add: findQuery_modifiers paramText_def comp_def)
  have b: "findQuery property [] = Inr (''username='' @ property)"
    using a [of "[]"] by simp
  have c: "findQuery ''jdoe'' [WithMaxResults 10, WithActive True] =
       Inr ''username=jdoe&maxResults=10&includeActive=true''"
    using findQuery_modifiers [of "''jdoe''" "[OptMaxResults 10, OptActive True]"]
    by (simp add: paramText_def Sprintf_d_def Sprintf_t_def decimal.simps)
  have e: "paramText (modifierParam (OptMaxResults n)) = ''maxResults='' @ Sprintf_d n"
    "paramText (modifierParam (OptStartAt n)) = ''startAt='' @ Sprintf_d n"
    "paramText (modifierParam (OptActive b)) = ''includeActive='' @ Sprintf_t b"
    "paramText (modifierParam (OptInactive b)) = ''includeInactive='' @ Sprintf_t b"
    by (simp_all add: paramText_def)
  have f: "snd (FindWithContext c lib property [] sent) =
     (case rejects c ''GET'' (''/rest/api/2/user/search?username='' @ property) None of
        Some err \<Rightarrow> sent
      | None \<Rightarrow> sent @ [Request ''GET'' (''/rest/api/2/user/search?username='' @ property) None])"
  proof -
    have "findEndpoint property (map modifier []) =
        Inr (''/rest/api/2/user/search?username='' @ property)"
      unfolding findEndpoint_modifiers by simp
    then have "findEndpoint property [] = Inr (''/rest/api/2/user/search?username='' @ property)"
      by simp
    then show ?thesis by (rule find_sent)
  qed
  have ep: "findEndpoint ''jdoe'' [WithMaxResults 10, WithActive True] =
       Inr ''/rest/api/2/user/search?username=jdoe&maxResults=10&includeActive=true''"
    by (simp add: findEndpoint_def c)
  have g: "snd (FindWithContext (fixedClient None (Some (ok200 ''[]'')) None) lib ''jdoe''
             [WithMaxResults 10, WithActive True] sent) =
     sent @ [Request ''GET''
               ''/rest/api/2/user/search?username=jdoe&maxResults=10&includeActive=true'' None]"
    unfolding find_sent [OF ep] by (simp add: fixedClient_def)
  from a b c e f g find_sent_modifiers [of c lib property ms sent] show ?thesis by blast
qed

text \<open>
  Claim C4. Each of \<open>WithMaxResults\<close>, \<open>WithStartAt\<close>, \<open>WithActive\<close> and
  \<open>WithInactive\<close> gives back the list it was given with one more pair at the
  end: no pair is removed or overwritten. So the request that find/search
  executes with two modifiers, also two with the same parameter name, has both
  parameters in its query string, the earlier one first: with
  \<open>WithActive(true)\<close> then \<open>WithActive(false)\<close> the request is for
  \<open>/rest/api/2/user/search?username=jdoe&includeActive=true&includeActive=false\<close>.
\<close>

theorem modifiers_append:
  "WithMaxResults n s = s @ [\<lparr>name = ''maxResults'', value = Sprintf_d n\<rparr>]
   \<and> WithStartAt n s = s @ [\<lparr>name = ''startAt'', value = Sprintf_d n\<rparr>]
   \<and> WithActive b s = s @ [\<lparr>name = ''includeActive'', value = Sprintf_t b\<rparr>]
   \<and> WithInactive b s = s @ [\<lparr>name = ''includeInactive'', value = Sprintf_t b\<rparr>]
   \<and> snd (FindWithContext c lib property [modifier m1, modifier m2] sent) =
     (case rejects c ''GET''
             (''/rest/api/2/user/search?username='' @ property @ ''&'' @
              paramText (modifierParam m1) @ ''&'' @ paramText (modifierParam m2))
             None of
        Some err \<Rightarrow> sent
      | None \<Rightarrow>
          sent @ [Request ''GET''
                    (''/rest/api/2/user/search?username='' @ property @ ''&'' @
                     paramText (modifierParam m1) @ ''&'' @ paramText (modifierParam m2))
                    None])
   \<and> snd (FindWithContext (fixedClient None (Some (ok200 ''[]'')) None) lib ''jdoe''
             [WithActive True, WithActive False] sent) =
     sent @ [Request ''GET''
               ''/rest/api/2/user/search?username=jdoe&includeActive=true&includeActive=false'' None]
   \<and> findQuery property [modifier m1, modifier m2] =
       Inr (''username='' @ property @ ''&'' @ paramText (modifierParam m1)
              @ ''&'' @ paramText (modifierParam m2))
   \<and> findQuery ''jdoe'' [WithActive True, WithActive False] =
       Inr ''username=jdoe&includeActive=true&includeActive=false''"
proof -
  have q: "findQuery property [modifier m1, modifier m2] =
       Inr (''username='' @ property @ ''&'' @ paramText (modifierParam m1)
              @ ''&'' @ paramText (modifierParam m2))" for property m1 m2
    using findQuery_modifiers [of property "[m1, m2]"] by (simp add: paramText_def)
  have e: "findQuery ''jdoe'' [WithActive True, WithActive False] =
       Inr ''username=jdoe&includeActive=true&includeActive=false''"
    using q [of "''jdoe''" "OptActive True" "OptActive False"]
    by (simp add: paramText_def Sprintf_t_def)
  have f: "snd (FindWithContext c lib property [modifier m1, modifier m2] sent) =
     (case rejects c ''GET''
             (''/rest/api/2/user/search?username='' @ property @ ''&'' @
              paramText (modifierParam m1) @ ''&'' @ paramText (modifierParam m2))
             None of
        Some err \<Rightarrow> sent
      | None \<Rightarrow>
          sent @ [Request ''GET''
                    (''/rest/api/2/user/search?username='' @ property @ ''&'' @
                     paramText (modifierParam m1) @ ''&'' @ paramText (modifierParam m2))
                    None])"
  proof -
    have "findEndpoint property (map modifier [m1, m2]) =
        Inr (''/rest/api/2/user/search?username='' @ property @ ''&'' @
             paramText (modifierParam m1) @ ''&'' @ paramText (modifierParam m2))"
      unfolding findEndpoint_modifiers by simp
    then have "findEndpoint property [modifier m1, modifier m2] =
        Inr (''/rest/api/2/user/search?username='' @ property @ ''&'' @
             paramText (modifierParam m1) @ ''&'' @ paramText (modifierParam m2))"
      by simp
    then show ?thesis by (rule find_sent)
  qed
  have ep: "findEndpoint ''jdoe'' [WithActive True, WithActive False] =
       Inr ''/rest/api/2/user/search?username=jdoe&includeActive=true&includeActive=false''"
    by (simp add: findEndpoint_def e)
  have g: "snd (FindWithContext (fixedClient None (Some (ok200 ''[]'')) None) lib ''jdoe''
             [WithActive True, WithActive False] sent) =
     sent @ [Request ''GET''
               ''/rest/api/2/user/search?username=jdoe&includeActive=true&includeActive=false'' None]"
    unfolding find_sent [OF ep] by (simp add: fixedClient_def)
  have w: "WithMaxResults n s = s @ [\<lparr>name = ''maxResults'', value = Sprintf_d n\<rparr>]"
    "WithStartAt n s = s @ [\<lparr>name = ''startAt'', value = Sprintf_d n\<rparr>]"
    "WithActive b s = s @ [\<lparr>name = ''includeActive'', value = Sprintf_t b\<rparr>]"
    "WithInactive b s = s @ [\<lparr>name = ''includeInactive'', value = Sprintf_t b\<rparr>]"
    by (simp_all add: WithMaxResults_def WithStartAt_def WithActive_def WithInactive_def)
  from q [of property m1 m2] e f g w show ?thesis by blast
qed


end
